theory Spec2Isabelle
  imports Complex_Main
begin

section \<open>HRMS Lite: the employee directory and the attendance ledger\<close>

text \<open>
  A shallow embedding of \<^verbatim>\<open>app/models\<close>, \<^verbatim>\<open>app/services/employee_service.py\<close> and
  \<^verbatim>\<open>app/services/attendance_service.py\<close>. The relational store is a pair of tables, each a
  list of rows in insertion order. Every service method takes the store and returns its
  outcome together with the store it leaves behind; an \<^verbatim>\<open>HTTPException\<close> is the left
  injection of the outcome. Values that the source draws from its environment
  (\<^verbatim>\<open>uuid.uuid4()\<close>, the store's \<^verbatim>\<open>now()\<close>, \<^verbatim>\<open>date.today()\<close>) are arguments.
\<close>

subsection \<open>Strings\<close>

text \<open>
  A Python \<^verbatim>\<open>str\<close> is modelled as a \<open>string\<close>. \<^verbatim>\<open>str.upper\<close> and \<^verbatim>\<open>str.lower\<close> are
  built-ins of Python that follow the Unicode case tables; they are not code of the
  service. Every definition that calls them takes them as its arguments \<open>upper\<close> and
  \<open>lower\<close>, and every statement about these definitions holds for all such functions.
\<close>

type_synonym casing = "string \<Rightarrow> string"

text \<open>The f-string fragment \<^verbatim>\<open>'{x}'\<close>: the value between two apostrophes.\<close>

definition quoted :: "string \<Rightarrow> string" where
  "quoted x = [CHR 0x27] @ x @ [CHR 0x27]"

subsection \<open>Tables (app/models)\<close>

type_synonym date = nat
type_synonym datetime = nat

text \<open>Table \<^verbatim>\<open>employees\<close>. Field \<open>e_employee_id\<close> is the external employee code.\<close>

record Employee =
  e_id :: string
  e_employee_id :: string
  e_full_name :: string
  e_email :: string
  e_department :: string
  e_created_at :: datetime
  e_updated_at :: datetime

text \<open>Table \<^verbatim>\<open>attendance\<close>. The status column is a plain \<^verbatim>\<open>String(20)\<close>.\<close>

record Attendance =
  a_id :: string
  a_employee_id :: string
  a_date :: date
  a_status :: string
  a_created_at :: datetime
  a_updated_at :: datetime

definition PRESENT :: string where
  "PRESENT = ''present''"

definition ABSENT :: string where
  "ABSENT = ''absent''"

record database =
  employees :: "Employee list"
  attendance :: "Attendance list"

subsection \<open>Errors\<close>

text \<open>
  What a service method can raise: the \<^verbatim>\<open>HTTPException\<close> it builds itself, or Python's
  \<^verbatim>\<open>ZeroDivisionError\<close> out of a division.
\<close>

datatype error = HTTPException (status_code: nat) (detail: string) | ZeroDivisionError

definition HTTP_404_NOT_FOUND :: nat where
  "HTTP_404_NOT_FOUND = 404"

definition HTTP_409_CONFLICT :: nat where
  "HTTP_409_CONFLICT = 409"

datatype store_error = IntegrityError

subsection \<open>The store: constraints checked when a row is inserted\<close>

text \<open>
  \<^verbatim>\<open>db.add(row); db.commit()\<close>. The insert is refused with \<^verbatim>\<open>IntegrityError\<close> when it
  would break a constraint the models declare: the primary key, \<^verbatim>\<open>unique=True\<close> on the
  employee code and on the email, \<^verbatim>\<open>UniqueConstraint("employee_id", "date")\<close> and the
  foreign key of \<^verbatim>\<open>attendance.employee_id\<close>.
\<close>

definition add_employee :: "database \<Rightarrow> Employee \<Rightarrow> store_error + database" where
  "add_employee db e =
     (if e_id e \<in> set (map e_id (employees db))
         \<or> e_employee_id e \<in> set (map e_employee_id (employees db))
         \<or> e_email e \<in> set (map e_email (employees db))
      then Inl IntegrityError
      else Inr (db\<lparr>employees := employees db @ [e]\<rparr>))"

definition add_attendance :: "database \<Rightarrow> Attendance \<Rightarrow> store_error + database" where
  "add_attendance db a =
     (if a_id a \<in> set (map a_id (attendance db))
         \<or> (a_employee_id a, a_date a) \<in> set (map (\<lambda>r. (a_employee_id r, a_date r)) (attendance db))
         \<or> a_employee_id a \<notin> set (map e_id (employees db))
      then Inl IntegrityError
      else Inr (db\<lparr>attendance := attendance db @ [a]\<rparr>))"

text \<open>The constraints themselves, as a predicate on a store.\<close>

definition unique_employee_date :: "database \<Rightarrow> bool" where
  "unique_employee_date db = distinct (map (\<lambda>r. (a_employee_id r, a_date r)) (attendance db))"

definition constraints :: "database \<Rightarrow> bool" where
  "constraints db \<longleftrightarrow>
     distinct (map e_id (employees db)) \<and>
     distinct (map e_employee_id (employees db)) \<and>
     distinct (map e_email (employees db)) \<and>
     distinct (map a_id (attendance db)) \<and>
     unique_employee_date db \<and>
     set (map a_employee_id (attendance db)) \<subseteq> set (map e_id (employees db))"

text \<open>
  Every stored employee code is its own upper-casing and every stored email its own
  lower-casing: what holds of a store whose employees all came through \<open>create_employee\<close>.
\<close>

definition normalized :: "casing \<Rightarrow> casing \<Rightarrow> database \<Rightarrow> bool" where
  "normalized upper lower db \<longleftrightarrow>
     (\<forall>e\<in>set (employees db).
        upper (e_employee_id e) = e_employee_id e \<and> lower (e_email e) = e_email e)"

subsection \<open>EmployeeService\<close>

definition get_employee_by_id :: "database \<Rightarrow> string \<Rightarrow> Employee option" where
  "get_employee_by_id db employee_uuid = find (\<lambda>e. e_id e = employee_uuid) (employees db)"

definition get_employee_by_employee_id ::
  "casing \<Rightarrow> database \<Rightarrow> string \<Rightarrow> Employee option" where
  "get_employee_by_employee_id upper db employee_id =
     find (\<lambda>e. e_employee_id e = upper employee_id) (employees db)"

definition get_employee_by_email :: "casing \<Rightarrow> database \<Rightarrow> string \<Rightarrow> Employee option" where
  "get_employee_by_email lower db email = find (\<lambda>e. e_email e = lower email) (employees db)"

text \<open>
  The \<^verbatim>\<open>try\<close> block of \<^verbatim>\<open>create_employee\<close>: build the row, insert and commit; on
  \<^verbatim>\<open>IntegrityError\<close> roll back (the pending insert is dropped, the store is as before) and
  raise 409.
\<close>

definition insert_employee ::
  "casing \<Rightarrow> casing \<Rightarrow> string \<Rightarrow> datetime \<Rightarrow> database \<Rightarrow> string \<Rightarrow> string \<Rightarrow> string \<Rightarrow> string
     \<Rightarrow> (error + Employee) \<times> database" where
  "insert_employee upper lower new_uuid now db employee_id full_name email department =
     (let employee = \<lparr>e_id = new_uuid, e_employee_id = upper employee_id,
                       e_full_name = full_name, e_email = lower email,
                       e_department = department, e_created_at = now, e_updated_at = now\<rparr>
      in case add_employee db employee of
           Inr db' \<Rightarrow> (Inr employee, db')
         | Inl IntegrityError \<Rightarrow>
             (Inl (HTTPException HTTP_409_CONFLICT
                     ''Employee with this ID or email already exists''), db))"

definition create_employee ::
  "casing \<Rightarrow> casing \<Rightarrow> string \<Rightarrow> datetime \<Rightarrow> database \<Rightarrow> string \<Rightarrow> string \<Rightarrow> string \<Rightarrow> string
     \<Rightarrow> (error + Employee) \<times> database" where
  "create_employee upper lower new_uuid now db employee_id full_name email department =
     (if get_employee_by_employee_id upper db employee_id \<noteq> None then
        (Inl (HTTPException HTTP_409_CONFLICT
                (''Employee with ID '' @ quoted employee_id @ '' already exists'')), db)
      else if get_employee_by_email lower db email \<noteq> None then
        (Inl (HTTPException HTTP_409_CONFLICT
                (''Employee with email '' @ quoted email @ '' already exists'')), db)
      else insert_employee upper lower new_uuid now db employee_id full_name email department)"

text \<open>
  The same method when other sessions commit between its two look-ups and its insert:
  \<open>others\<close> is what they do to the store in that window. The look-ups read the store as
  it was, the insert meets the store as it has become.
\<close>

definition create_employee_interleaved ::
  "casing \<Rightarrow> casing \<Rightarrow> (database \<Rightarrow> database) \<Rightarrow> string \<Rightarrow> datetime \<Rightarrow> database
     \<Rightarrow> string \<Rightarrow> string \<Rightarrow> string \<Rightarrow> string \<Rightarrow> (error + Employee) \<times> database" where
  "create_employee_interleaved upper lower others new_uuid now db employee_id full_name email department =
     (if get_employee_by_employee_id upper db employee_id \<noteq> None then
        (Inl (HTTPException HTTP_409_CONFLICT
                (''Employee with ID '' @ quoted employee_id @ '' already exists'')), db)
      else if get_employee_by_email lower db email \<noteq> None then
        (Inl (HTTPException HTTP_409_CONFLICT
                (''Employee with email '' @ quoted email @ '' already exists'')), db)
      else insert_employee upper lower new_uuid now (others db) employee_id full_name email department)"

text \<open>
  \<^verbatim>\<open>db.delete(employee); db.commit()\<close>. The relationship \<^verbatim>\<open>attendance_records\<close> is declared
  with \<^verbatim>\<open>cascade="all, delete-orphan"\<close> and the foreign key with \<^verbatim>\<open>ondelete="CASCADE"\<close>:
  the ledger rows of the employee go with it.
\<close>

definition delete_employee :: "database \<Rightarrow> string \<Rightarrow> (error + bool) \<times> database" where
  "delete_employee db employee_uuid =
     (case get_employee_by_id db employee_uuid of
        None \<Rightarrow>
          (Inl (HTTPException HTTP_404_NOT_FOUND
                  (''Employee with ID '' @ quoted employee_uuid @ '' not found'')), db)
      | Some employee \<Rightarrow>
          (Inr True,
           db\<lparr>employees := filter (\<lambda>e. e_id e \<noteq> e_id employee) (employees db),
              attendance := filter (\<lambda>r. a_employee_id r \<noteq> e_id employee) (attendance db)\<rparr>))"

text \<open>
  \<^verbatim>\<open>get_employee_with_stats\<close> and the endpoint \<^verbatim>\<open>GET /employees/{employee_id}\<close> of
  \<^verbatim>\<open>app/api/employees.py\<close> that turns its \<^verbatim>\<open>None\<close> into 404.
\<close>

record EmployeeWithStats =
  es_employee :: Employee
  es_present_days :: int
  es_absent_days :: int

definition count_rows :: "('a \<Rightarrow> bool) \<Rightarrow> 'a list \<Rightarrow> int" where
  "count_rows P rows = int (length (filter P rows))"

definition get_employee_with_stats :: "database \<Rightarrow> string \<Rightarrow> EmployeeWithStats option" where
  "get_employee_with_stats db employee_uuid =
     (case find (\<lambda>e. e_id e = employee_uuid) (employees db) of
        None \<Rightarrow> None
      | Some emp \<Rightarrow>
          Some \<lparr>es_employee = emp,
                es_present_days =
                  count_rows (\<lambda>r. a_employee_id r = e_id emp \<and> a_status r = PRESENT) (attendance db),
                es_absent_days =
                  count_rows (\<lambda>r. a_employee_id r = e_id emp \<and> a_status r = ABSENT) (attendance db)\<rparr>)"

definition get_employee :: "database \<Rightarrow> string \<Rightarrow> error + EmployeeWithStats" where
  "get_employee db employee_id =
     (case get_employee_with_stats db employee_id of
        None \<Rightarrow>
          Inl (HTTPException HTTP_404_NOT_FOUND
                 (''Employee with ID '' @ quoted employee_id @ '' not found''))
      | Some employee_data \<Rightarrow> Inr employee_data)"

subsection \<open>Python numbers\<close>

text \<open>
  A Python number is modelled by the rational it denotes, so the integer \<^verbatim>\<open>0\<close> and the
  float \<^verbatim>\<open>0.0\<close> are the same value. A float is a binary64: \<open>to_double\<close> rounds a rational
  to the nearest one, ties to even, with the subnormal exponent floor at \<open>-1074\<close>.
  Overflow to infinity is left out: every quotient below is a ratio of two row counts.
\<close>

definition pow2 :: "int \<Rightarrow> rat" where
  "pow2 e = (if 0 \<le> e then 2 ^ nat e else 1 / 2 ^ nat (- e))"

definition round_half_even :: "rat \<Rightarrow> int" where
  "round_half_even x =
     (let f = \<lfloor>x\<rfloor>; r = x - of_int f
      in if r < 1 / 2 then f else if 1 / 2 < r then f + 1 else if even f then f else f + 1)"

text \<open>The number of binary digits of a natural number.\<close>

fun bit_length :: "nat \<Rightarrow> nat" where
  "bit_length n = (if n = 0 then 0 else Suc (bit_length (n div 2)))"

declare bit_length.simps [simp del]

text \<open>\<open>\<lfloor>log\<^sub>2 x\<rfloor>\<close> for a positive rational, from the bit length of an integer.\<close>

definition floor_log2 :: "rat \<Rightarrow> int" where
  "floor_log2 x =
     (if 1 \<le> x then int (bit_length (nat \<lfloor>x\<rfloor>)) - 1
      else - int (bit_length (nat (\<lceil>1 / x\<rceil> - 1))))"

definition to_double :: "rat \<Rightarrow> rat" where
  "to_double x =
     (if x = 0 then 0
      else let e = max (floor_log2 \<bar>x\<bar> - 52) (- 1074);
               m = round_half_even (\<bar>x\<bar> / pow2 e)
           in sgn x * of_int m * pow2 e)"

text \<open>\<^verbatim>\<open>a / b\<close> on two ints: the correctly rounded quotient, or \<^verbatim>\<open>ZeroDivisionError\<close>.\<close>

definition truediv :: "int \<Rightarrow> int \<Rightarrow> error + rat" where
  "truediv a b = (if b = 0 then Inl ZeroDivisionError else Inr (to_double (of_int a / of_int b)))"

text \<open>\<^verbatim>\<open>x * 100\<close> on a float and an int.\<close>

definition float_mul :: "rat \<Rightarrow> int \<Rightarrow> rat" where
  "float_mul x k = to_double (x * of_int k)"

text \<open>
  \<^verbatim>\<open>round(x, ndigits)\<close>: the decimal with \<open>ndigits\<close> places nearest to the exact value of
  \<open>x\<close>, ties to even, read back as a float.
\<close>

definition py_round :: "rat \<Rightarrow> nat \<Rightarrow> rat" where
  "py_round x ndigits = to_double (of_int (round_half_even (x * 10 ^ ndigits)) / 10 ^ ndigits)"

subsection \<open>AttendanceService\<close>

record AttendanceRecord =
  r_id :: string
  r_employee_id :: string
  r_employee_name :: "string option"
  r_employee_code :: "string option"
  r_date :: date
  r_status :: string
  r_created_at :: datetime
  r_updated_at :: datetime

text \<open>\<^verbatim>\<open>record.employee\<close>: the row of \<^verbatim>\<open>employees\<close> the foreign key points to, if any.\<close>

definition employee_of :: "database \<Rightarrow> Attendance \<Rightarrow> Employee option" where
  "employee_of db record = find (\<lambda>e. e_id e = a_employee_id record) (employees db)"

definition format_record :: "database \<Rightarrow> Attendance \<Rightarrow> AttendanceRecord" where
  "format_record db record =
     \<lparr>r_id = a_id record,
      r_employee_id = a_employee_id record,
      r_employee_name = map_option e_full_name (employee_of db record),
      r_employee_code = map_option e_employee_id (employee_of db record),
      r_date = a_date record,
      r_status = a_status record,
      r_created_at = a_created_at record,
      r_updated_at = a_updated_at record\<rparr>"

definition date_filter :: "date option \<Rightarrow> date option \<Rightarrow> Attendance \<Rightarrow> bool" where
  "date_filter start_date end_date r \<longleftrightarrow>
     (case start_date of None \<Rightarrow> True | Some s \<Rightarrow> s \<le> a_date r) \<and>
     (case end_date of None \<Rightarrow> True | Some e \<Rightarrow> a_date r \<le> e)"

text \<open>
  \<^verbatim>\<open>order_by(Attendance.date.desc())\<close>. SQL leaves the order of rows with equal dates
  open; here they keep their table order.
\<close>

definition order_by_date_desc :: "Attendance list \<Rightarrow> Attendance list" where
  "order_by_date_desc rows = sort_key (\<lambda>r. - int (a_date r)) rows"

definition get_all_attendance ::
  "database \<Rightarrow> date option \<Rightarrow> date option \<Rightarrow> AttendanceRecord list" where
  "get_all_attendance db start_date end_date =
     map (format_record db)
       (order_by_date_desc (filter (date_filter start_date end_date) (attendance db)))"

definition get_attendance_by_employee ::
  "database \<Rightarrow> string \<Rightarrow> date option \<Rightarrow> date option \<Rightarrow> error + AttendanceRecord list" where
  "get_attendance_by_employee db employee_uuid start_date end_date =
     (case find (\<lambda>e. e_id e = employee_uuid) (employees db) of
        None \<Rightarrow>
          Inl (HTTPException HTTP_404_NOT_FOUND
                 (''Employee with ID '' @ quoted employee_uuid @ '' not found''))
      | Some employee \<Rightarrow>
          Inr (map (format_record db)
                 (order_by_date_desc
                    (filter (\<lambda>r. a_employee_id r = employee_uuid \<and> date_filter start_date end_date r)
                       (attendance db)))))"

text \<open>
  The update branch of \<^verbatim>\<open>mark_attendance\<close>: \<^verbatim>\<open>existing.status = status_value\<close> and
  commit. The session writes an UPDATE of that row (by primary key) only when the value
  differs from the loaded one; the UPDATE also sets \<^verbatim>\<open>updated_at\<close> (\<^verbatim>\<open>onupdate\<close>).
\<close>

definition set_status :: "datetime \<Rightarrow> string \<Rightarrow> Attendance \<Rightarrow> Attendance" where
  "set_status now status_value r =
     (if a_status r = status_value then r
      else r\<lparr>a_status := status_value, a_updated_at := now\<rparr>)"

definition update_status :: "datetime \<Rightarrow> database \<Rightarrow> Attendance \<Rightarrow> string \<Rightarrow> database" where
  "update_status now db existing status_value =
     db\<lparr>attendance :=
          map (\<lambda>r. if a_id r = a_id existing then set_status now status_value r else r)
            (attendance db)\<rparr>"

text \<open>
  The \<^verbatim>\<open>try\<close> block of \<^verbatim>\<open>mark_attendance\<close>: insert and commit; on \<^verbatim>\<open>IntegrityError\<close>
  roll back (the store is as before) and raise 409.
\<close>

definition insert_attendance ::
  "string \<Rightarrow> datetime \<Rightarrow> database \<Rightarrow> string \<Rightarrow> date \<Rightarrow> string
     \<Rightarrow> (error + AttendanceRecord) \<times> database" where
  "insert_attendance new_uuid now db employee_id attendance_date status_value =
     (let attendance = \<lparr>a_id = new_uuid, a_employee_id = employee_id, a_date = attendance_date,
                         a_status = status_value, a_created_at = now, a_updated_at = now\<rparr>
      in case add_attendance db attendance of
           Inr db' \<Rightarrow> (Inr (format_record db' attendance), db')
         | Inl IntegrityError \<Rightarrow>
             (Inl (HTTPException HTTP_409_CONFLICT ''Attendance for this date already exists''),
              db))"

definition mark_attendance ::
  "string \<Rightarrow> datetime \<Rightarrow> database \<Rightarrow> string \<Rightarrow> date \<Rightarrow> string
     \<Rightarrow> (error + AttendanceRecord) \<times> database" where
  "mark_attendance new_uuid now db employee_id attendance_date status_value =
     (case find (\<lambda>e. e_id e = employee_id) (employees db) of
        None \<Rightarrow>
          (Inl (HTTPException HTTP_404_NOT_FOUND
                  (''Employee with ID '' @ quoted employee_id @ '' not found'')), db)
      | Some employee \<Rightarrow>
          (case find (\<lambda>r. a_employee_id r = employee_id \<and> a_date r = attendance_date)
                  (attendance db) of
             Some existing \<Rightarrow>
               (let db' = update_status now db existing status_value
                in (Inr (format_record db' (set_status now status_value existing)), db'))
           | None \<Rightarrow>
               insert_attendance new_uuid now db employee_id attendance_date status_value))"

text \<open>
  The same method when other sessions commit between its two look-ups and its insert:
  the look-ups read \<open>db\<close>, the insert meets \<open>others db\<close>.
\<close>

definition mark_attendance_interleaved ::
  "(database \<Rightarrow> database) \<Rightarrow> string \<Rightarrow> datetime \<Rightarrow> database \<Rightarrow> string \<Rightarrow> date \<Rightarrow> string
     \<Rightarrow> (error + AttendanceRecord) \<times> database" where
  "mark_attendance_interleaved others new_uuid now db employee_id attendance_date status_value =
     (case find (\<lambda>e. e_id e = employee_id) (employees db) of
        None \<Rightarrow>
          (Inl (HTTPException HTTP_404_NOT_FOUND
                  (''Employee with ID '' @ quoted employee_id @ '' not found'')), db)
      | Some employee \<Rightarrow>
          (case find (\<lambda>r. a_employee_id r = employee_id \<and> a_date r = attendance_date)
                  (attendance db) of
             Some existing \<Rightarrow>
               (let db' = update_status now db existing status_value
                in (Inr (format_record db' (set_status now status_value existing)), db'))
           | None \<Rightarrow>
               insert_attendance new_uuid now (others db) employee_id attendance_date
                 status_value))"

text \<open>
  A run of \<open>mark_attendance\<close> calls, each with the uuid and the time it draws, one after
  the other on the store the previous one left, whatever each call answered.
\<close>

fun mark_sequence :: "database \<Rightarrow> (string \<times> datetime \<times> string \<times> date \<times> string) list \<Rightarrow> database" where
  "mark_sequence db [] = db"
| "mark_sequence db ((new_uuid, now, employee_id, attendance_date, status_value) # calls) =
     mark_sequence
       (snd (mark_attendance new_uuid now db employee_id attendance_date status_value)) calls"

record AttendanceStats =
  s_employee_id :: string
  s_employee_name :: string
  total_days :: int
  present_days :: int
  absent_days :: int
  attendance_percentage :: rat

definition get_attendance_stats :: "database \<Rightarrow> string \<Rightarrow> error + AttendanceStats" where
  "get_attendance_stats db employee_uuid =
     (case find (\<lambda>e. e_id e = employee_uuid) (employees db) of
        None \<Rightarrow>
          Inl (HTTPException HTTP_404_NOT_FOUND
                 (''Employee with ID '' @ quoted employee_uuid @ '' not found''))
      | Some employee \<Rightarrow>
          (let total_records =
                 count_rows (\<lambda>r. a_employee_id r = employee_uuid) (attendance db);
               present_count =
                 count_rows (\<lambda>r. a_employee_id r = employee_uuid \<and> a_status r = PRESENT)
                   (attendance db);
               absent_count =
                 count_rows (\<lambda>r. a_employee_id r = employee_uuid \<and> a_status r = ABSENT)
                   (attendance db)
           in case (if total_records > 0
                    then map_sum (\<lambda>err. err) (\<lambda>q. float_mul q 100)
                           (truediv present_count total_records)
                    else Inr 0) of
                Inl err \<Rightarrow> Inl err
              | Inr percentage \<Rightarrow>
                  Inr \<lparr>s_employee_id = employee_uuid,
                       s_employee_name = e_full_name employee,
                       total_days = total_records,
                       present_days = present_count,
                       absent_days = absent_count,
                       attendance_percentage = py_round percentage 2\<rparr>))"

record TodayCount =
  total_employees :: int
  marked_today :: int
  present_today :: int
  absent_today :: int
  unmarked_today :: int
  attendance_rate :: rat

definition get_today_attendance_count :: "date \<Rightarrow> database \<Rightarrow> error + TodayCount" where
  "get_today_attendance_count today db =
     (let total = count_rows (\<lambda>e. True) (employees db);
          present = count_rows (\<lambda>r. a_date r = today \<and> a_status r = PRESENT) (attendance db);
          absent = count_rows (\<lambda>r. a_date r = today \<and> a_status r = ABSENT) (attendance db);
          marked = present + absent
      in case (if total > 0
               then map_sum (\<lambda>err. err) (\<lambda>q. float_mul q 100) (truediv present total)
               else Inr 0) of
           Inl err \<Rightarrow> Inl err
         | Inr rate \<Rightarrow>
             Inr \<lparr>total_employees = total,
                  marked_today = marked,
                  present_today = present,
                  absent_today = absent,
                  unmarked_today = total - marked,
                  attendance_rate = py_round rate 2\<rparr>)"

section \<open>Example stores\<close>

text \<open>
  The casing the examples run with: \<^verbatim>\<open>str.upper\<close> and \<^verbatim>\<open>str.lower\<close> as they act on
  strings of ASCII characters, the only strings the examples use.
\<close>

definition ascii_upper_char :: "char \<Rightarrow> char" where
  "ascii_upper_char c =
     (let n = (of_char c :: nat) in if 97 \<le> n \<and> n \<le> 122 then char_of (n - 32) else c)"

definition ascii_lower_char :: "char \<Rightarrow> char" where
  "ascii_lower_char c =
     (let n = (of_char c :: nat) in if 65 \<le> n \<and> n \<le> 90 then char_of (n + 32) else c)"

definition ascii_upper :: "string \<Rightarrow> string" where
  "ascii_upper s = map ascii_upper_char s"

definition ascii_lower :: "string \<Rightarrow> string" where
  "ascii_lower s = map ascii_lower_char s"

definition empty_store :: database where
  "empty_store = \<lparr>employees = [], attendance = []\<rparr>"

definition E1 :: Employee where
  "E1 = \<lparr>e_id = ''u1'', e_employee_id = ''E001'', e_full_name = ''Ann'', e_email = ''a@x.com'',
          e_department = ''Eng'', e_created_at = 1, e_updated_at = 1\<rparr>"

definition E2 :: Employee where
  "E2 = \<lparr>e_id = ''u2'', e_employee_id = ''E002'', e_full_name = ''Bob'', e_email = ''b@x.com'',
          e_department = ''Ops'', e_created_at = 2, e_updated_at = 2\<rparr>"

definition store1 :: database where
  "store1 = \<lparr>employees = [E1], attendance = []\<rparr>"

text \<open>A ledger row whose owner is in no \<open>employees\<close> table.\<close>

definition orphan :: Attendance where
  "orphan = \<lparr>a_id = ''r9'', a_employee_id = ''zz'', a_date = 5, a_status = ''present'',
              a_created_at = 3, a_updated_at = 3\<rparr>"

text \<open>Two employees, each with one ledger row on day 5.\<close>

definition A1 :: Attendance where
  "A1 = \<lparr>a_id = ''r1'', a_employee_id = ''u1'', a_date = 5, a_status = ''present'',
          a_created_at = 3, a_updated_at = 3\<rparr>"

definition A2 :: Attendance where
  "A2 = \<lparr>a_id = ''r2'', a_employee_id = ''u2'', a_date = 5, a_status = ''absent'',
          a_created_at = 4, a_updated_at = 4\<rparr>"

definition store2 :: database where
  "store2 = \<lparr>employees = [E1, E2], attendance = [A1, A2]\<rparr>"

text \<open>The row \<open>A1\<close> after its status has been overwritten at time 4.\<close>

definition A1_absent :: Attendance where
  "A1_absent = \<lparr>a_id = ''r1'', a_employee_id = ''u1'', a_date = 5, a_status = ''absent'',
                 a_created_at = 3, a_updated_at = 4\<rparr>"

text \<open>A ledger row whose status is neither \<open>present\<close> nor \<open>absent\<close>.\<close>

definition A1_late :: Attendance where
  "A1_late = \<lparr>a_id = ''r1'', a_employee_id = ''u1'', a_date = 5, a_status = ''late'',
               a_created_at = 3, a_updated_at = 3\<rparr>"

text \<open>Employee \<open>u1\<close> present on day 5 and absent on days 6 and 7; employee \<open>u2\<close> never marked.\<close>

definition A3 :: Attendance where
  "A3 = \<lparr>a_id = ''r3'', a_employee_id = ''u1'', a_date = 6, a_status = ''absent'',
          a_created_at = 5, a_updated_at = 5\<rparr>"

definition A4 :: Attendance where
  "A4 = \<lparr>a_id = ''r4'', a_employee_id = ''u1'', a_date = 7, a_status = ''absent'',
          a_created_at = 6, a_updated_at = 6\<rparr>"

definition store3 :: database where
  "store3 = \<lparr>employees = [E1, E2], attendance = [A1, A3, A4]\<rparr>"

text \<open>Two employees, one of them marked present on day 5.\<close>

definition store4 :: database where
  "store4 = \<lparr>employees = [E1, E2], attendance = [A1]\<rparr>"

text \<open>An inconsistent store: a ledger row and no employee at all.\<close>

definition orphans_only :: database where
  "orphans_only = \<lparr>employees = [], attendance = [orphan]\<rparr>"

section \<open>Properties\<close>

subsection \<open>Creating an employee\<close>

lemma add_employee_Inr:
  "add_employee db e = Inr db' \<Longrightarrow> db' = db\<lparr>employees := employees db @ [e]\<rparr>"
  by (simp add: add_employee_def split: if_splits)

lemma insert_employee_Inr:
  assumes "insert_employee upper lower new_uuid now db employee_id full_name email department = (Inr emp, db')"
  shows "emp = \<lparr>e_id = new_uuid, e_employee_id = upper employee_id, e_full_name = full_name,
                 e_email = lower email, e_department = department,
                 e_created_at = now, e_updated_at = now\<rparr>
         \<and> db' = db\<lparr>employees := employees db @ [emp]\<rparr>"
  using assms
  by (auto simp: insert_employee_def Let_def split: sum.splits store_error.splits
           dest: add_employee_Inr)

lemma create_employee_Inr:
  assumes "create_employee upper lower new_uuid now db employee_id full_name email department = (Inr emp, db')"
  shows "insert_employee upper lower new_uuid now db employee_id full_name email department = (Inr emp, db')"
  using assms by (simp add: create_employee_def split: if_splits)

text \<open>
  C5. Whenever \<open>create_employee\<close> succeeds, the employee it returns has the input code
  upper-cased and the input email lower-cased, has \<open>full_name\<close> and \<open>department\<close> exactly as
  given, and is the row the call appended to the \<open>employees\<close> table. Here \<open>upper\<close> and
  \<open>lower\<close> stand for \<^verbatim>\<open>str.upper\<close> and \<^verbatim>\<open>str.lower\<close>, whatever functions on strings they
  are.
\<close>

theorem create_employee_normalizes:
  assumes "create_employee upper lower new_uuid now db employee_id full_name email department
             = (Inr emp, db')"
  shows "e_employee_id emp = upper employee_id \<and> e_email emp = lower email
         \<and> e_full_name emp = full_name \<and> e_department emp = department
         \<and> employees db' = employees db @ [emp] \<and> attendance db' = attendance db"
proof -
  from assms have ins:
    "insert_employee upper lower new_uuid now db employee_id full_name email department = (Inr emp, db')"
    by (rule create_employee_Inr)
  from insert_employee_Inr [OF ins] show ?thesis
    by auto
qed

theorem create_employee_normalizes_witness:
  "create_employee ascii_upper ascii_lower ''u1'' 1 empty_store ''e001'' ''Ann'' ''A@X.com'' ''Eng'' = (Inr E1, store1)
   \<and> e_employee_id E1 = ''E001'' \<and> e_email E1 = ''a@x.com''
   \<and> e_full_name E1 = ''Ann'' \<and> e_department E1 = ''Eng''
   \<and> employees store1 = employees empty_store @ [E1]"
proof -
  have run: "create_employee ascii_upper ascii_lower ''u1'' 1 empty_store ''e001'' ''Ann'' ''A@X.com'' ''Eng''
             = (Inr E1, store1)"
    by code_simp
  have up: "ascii_upper ''e001'' = ''E001''" and lo: "ascii_lower ''A@X.com'' = ''a@x.com''"
    by code_simp+
  from create_employee_normalizes [OF run] run up lo show ?thesis
    by simp
qed

subsection \<open>Looking an employee up by primary key\<close>

lemma find_id_None:
  "u \<notin> set (map e_id es) \<Longrightarrow> find (\<lambda>e. e_id e = u) es = None"
  by (auto simp: find_None_iff)

lemma find_id_Some:
  assumes "u \<in> set (map e_id es)"
  shows "\<exists>e. find (\<lambda>e. e_id e = u) es = Some e \<and> e_id e = u \<and> e \<in> set es"
proof -
  from assms have "find (\<lambda>e. e_id e = u) es \<noteq> None"
    by (auto simp: find_None_iff)
  then obtain e where e: "find (\<lambda>e. e_id e = u) es = Some e"
    by auto
  then have "e_id e = u \<and> e \<in> set es"
    by (auto simp: find_Some_iff)
  with e show ?thesis by blast
qed

subsection \<open>Unknown employees\<close>

text \<open>
  C8. For an employee id that no row of \<open>employees\<close> carries, \<open>mark_attendance\<close>,
  \<open>get_attendance_by_employee\<close> and \<open>get_attendance_stats\<close> each raise 404. The mark leaves
  the store as it was, and the two reads answer 404 whatever the ledger holds (\<open>rows\<close> is
  any \<open>attendance\<close> table, also one with rows for that id): the look-up of the employee
  decides before the ledger is read, so the answer is never a list.
\<close>

theorem unknown_employee_not_found:
  assumes "employee_id \<notin> set (map e_id (employees db))"
  shows "mark_attendance new_uuid now db employee_id attendance_date status_value
           = (Inl (HTTPException HTTP_404_NOT_FOUND
                     (''Employee with ID '' @ quoted employee_id @ '' not found'')), db)
         \<and> get_attendance_by_employee (db\<lparr>attendance := rows\<rparr>) employee_id start_date end_date
           = Inl (HTTPException HTTP_404_NOT_FOUND
                    (''Employee with ID '' @ quoted employee_id @ '' not found''))
         \<and> get_attendance_stats (db\<lparr>attendance := rows\<rparr>) employee_id
           = Inl (HTTPException HTTP_404_NOT_FOUND
                    (''Employee with ID '' @ quoted employee_id @ '' not found''))"
  using find_id_None [OF assms]
  by (simp add: mark_attendance_def get_attendance_by_employee_def get_attendance_stats_def)

theorem unknown_employee_not_found_witness:
  "mark_attendance ''r1'' 7 store1 ''zz'' 5 ''present''
     = (Inl (HTTPException 404 ''Employee with ID 'zz' not found''), store1)
   \<and> get_attendance_by_employee (store1\<lparr>attendance := [orphan]\<rparr>) ''zz'' None None
     = Inl (HTTPException 404 ''Employee with ID 'zz' not found'')
   \<and> get_attendance_stats (store1\<lparr>attendance := [orphan]\<rparr>) ''zz''
     = Inl (HTTPException 404 ''Employee with ID 'zz' not found'')"
proof -
  have absent: "''zz'' \<notin> set (map e_id (employees store1))"
    by code_simp
  have msg: "HTTP_404_NOT_FOUND = 404"
    "''Employee with ID '' @ quoted ''zz'' @ '' not found'' = ''Employee with ID 'zz' not found''"
    by code_simp+
  from unknown_employee_not_found [OF absent, of "''r1''" 7 5 "''present''" "[orphan]" None None]
  show ?thesis
    unfolding msg .
qed

subsection \<open>Deleting an employee\<close>

lemma r_employee_id_format [simp]: "r_employee_id (format_record db a) = a_employee_id a"
  by (simp add: format_record_def)

lemma set_order_by_date_desc [simp]: "set (order_by_date_desc rows) = set rows"
  by (simp add: order_by_date_desc_def)

text \<open>
  C9. \<open>delete_employee\<close> on an id that no employee carries raises 404 and leaves the store
  as it was. On an id that exists it answers \<open>True\<close>; the store it leaves is the old one
  without that employee and without the ledger rows that employee owns, every other row of
  both tables kept as it was and in its place. Afterwards no record of that employee is
  in the list of all records, the per-employee list raises 404, and so does
  \<open>get_employee\<close> on that id.
\<close>

theorem delete_employee_cascade:
  "(employee_uuid \<notin> set (map e_id (employees db)) \<longrightarrow>
      delete_employee db employee_uuid
        = (Inl (HTTPException HTTP_404_NOT_FOUND
                  (''Employee with ID '' @ quoted employee_uuid @ '' not found'')), db))
   \<and> (employee_uuid \<in> set (map e_id (employees db)) \<longrightarrow>
        (\<exists>db'. delete_employee db employee_uuid = (Inr True, db')
           \<and> employees db' = filter (\<lambda>e. e_id e \<noteq> employee_uuid) (employees db)
           \<and> attendance db' = filter (\<lambda>r. a_employee_id r \<noteq> employee_uuid) (attendance db)
           \<and> filter (\<lambda>r. r_employee_id r = employee_uuid) (get_all_attendance db' start_date end_date) = []
           \<and> get_attendance_by_employee db' employee_uuid start_date end_date
               = Inl (HTTPException HTTP_404_NOT_FOUND
                        (''Employee with ID '' @ quoted employee_uuid @ '' not found''))
           \<and> get_employee db' employee_uuid
               = Inl (HTTPException HTTP_404_NOT_FOUND
                        (''Employee with ID '' @ quoted employee_uuid @ '' not found''))))"
proof (intro conjI impI)
  assume "employee_uuid \<notin> set (map e_id (employees db))"
  from find_id_None [OF this]
  show "delete_employee db employee_uuid
        = (Inl (HTTPException HTTP_404_NOT_FOUND
                  (''Employee with ID '' @ quoted employee_uuid @ '' not found'')), db)"
    by (simp add: delete_employee_def get_employee_by_id_def)
next
  assume "employee_uuid \<in> set (map e_id (employees db))"
  from find_id_Some [OF this] obtain e where
    e: "find (\<lambda>e. e_id e = employee_uuid) (employees db) = Some e" "e_id e = employee_uuid"
    by blast
  define db' where
    "db' = db\<lparr>employees := filter (\<lambda>e. e_id e \<noteq> employee_uuid) (employees db),
              attendance := filter (\<lambda>r. a_employee_id r \<noteq> employee_uuid) (attendance db)\<rparr>"
  have del: "delete_employee db employee_uuid = (Inr True, db')"
    using e by (simp add: delete_employee_def get_employee_by_id_def db'_def)
  have gone: "find (\<lambda>e. e_id e = employee_uuid) (employees db') = None"
    by (rule find_id_None) (auto simp: db'_def)
  have none_left: "filter (\<lambda>r. r_employee_id r = employee_uuid)
                     (get_all_attendance db' start_date end_date) = []"
    by (auto simp: filter_empty_conv get_all_attendance_def db'_def)
  show "\<exists>db'. delete_employee db employee_uuid = (Inr True, db')
           \<and> employees db' = filter (\<lambda>e. e_id e \<noteq> employee_uuid) (employees db)
           \<and> attendance db' = filter (\<lambda>r. a_employee_id r \<noteq> employee_uuid) (attendance db)
           \<and> filter (\<lambda>r. r_employee_id r = employee_uuid) (get_all_attendance db' start_date end_date) = []
           \<and> get_attendance_by_employee db' employee_uuid start_date end_date
               = Inl (HTTPException HTTP_404_NOT_FOUND
                        (''Employee with ID '' @ quoted employee_uuid @ '' not found''))
           \<and> get_employee db' employee_uuid
               = Inl (HTTPException HTTP_404_NOT_FOUND
                        (''Employee with ID '' @ quoted employee_uuid @ '' not found''))"
    using del gone none_left
    by (intro exI [of _ db'])
       (simp add: db'_def get_attendance_by_employee_def get_employee_def
          get_employee_with_stats_def)
qed

theorem delete_employee_cascade_witness:
  "delete_employee store2 ''zz''
     = (Inl (HTTPException 404 ''Employee with ID 'zz' not found''), store2)
   \<and> delete_employee store2 ''u1'' = (Inr True, \<lparr>employees = [E2], attendance = [A2]\<rparr>)
   \<and> get_employee \<lparr>employees = [E2], attendance = [A2]\<rparr> ''u1''
     = Inl (HTTPException 404 ''Employee with ID 'u1' not found'')"
proof -
  have absent: "''zz'' \<notin> set (map e_id (employees store2))"
    and there: "''u1'' \<in> set (map e_id (employees store2))"
    by code_simp+
  have msg: "HTTP_404_NOT_FOUND = 404"
    "''Employee with ID '' @ quoted ''zz'' @ '' not found'' = ''Employee with ID 'zz' not found''"
    "''Employee with ID '' @ quoted ''u1'' @ '' not found'' = ''Employee with ID 'u1' not found''"
    by code_simp+
  have rows: "filter (\<lambda>e. e_id e \<noteq> ''u1'') (employees store2) = [E2]"
    "filter (\<lambda>r. a_employee_id r \<noteq> ''u1'') (attendance store2) = [A2]"
    by code_simp+
  from delete_employee_cascade [of "''zz''" store2 None None] absent
  have one: "delete_employee store2 ''zz''
     = (Inl (HTTPException 404 ''Employee with ID 'zz' not found''), store2)"
    unfolding msg by blast
  from delete_employee_cascade [of "''u1''" store2 None None] there
  obtain db' where db':
    "delete_employee store2 ''u1'' = (Inr True, db')"
    "employees db' = [E2]" "attendance db' = [A2]"
    "get_employee db' ''u1'' = Inl (HTTPException 404 ''Employee with ID 'u1' not found'')"
    unfolding msg rows by blast
  from db'(2,3) have "db' = \<lparr>employees = [E2], attendance = [A2]\<rparr>"
    by simp
  with one db'(1,4) show ?thesis
    by simp
qed

subsection \<open>Conflicts on the employee code and the email\<close>

lemma create_employee_interleaved_alone:
  "create_employee_interleaved upper lower (\<lambda>db. db) = create_employee upper lower"
  by (intro ext) (simp add: create_employee_interleaved_def create_employee_def)

lemma pre_query_conflict:
  assumes "\<exists>e\<in>set (employees db). e_employee_id e = upper employee_id \<or> e_email e = lower email"
  shows "get_employee_by_employee_id upper db employee_id \<noteq> None
         \<or> get_employee_by_email lower db email \<noteq> None"
  using assms
  by (auto simp: get_employee_by_employee_id_def get_employee_by_email_def find_None_iff)

lemma add_employee_taken:
  assumes "\<exists>e\<in>set (employees db). e_employee_id e = e_employee_id emp \<or> e_email e = e_email emp"
  shows "add_employee db emp = Inl IntegrityError"
  using assms by (fastforce simp: add_employee_def image_iff)

lemma insert_employee_taken:
  assumes "\<exists>e\<in>set (employees db). e_employee_id e = upper employee_id \<or> e_email e = lower email"
  shows "insert_employee upper lower new_uuid now db employee_id full_name email department
           = (Inl (HTTPException HTTP_409_CONFLICT
                     ''Employee with this ID or email already exists''), db)"
proof -
  let ?emp = "\<lparr>e_id = new_uuid, e_employee_id = upper employee_id, e_full_name = full_name,
                e_email = lower email, e_department = department,
                e_created_at = now, e_updated_at = now\<rparr>"
  from assms have "add_employee db ?emp = Inl IntegrityError"
    by (intro add_employee_taken) simp
  then show ?thesis
    by (simp add: insert_employee_def)
qed

text \<open>
  C4. \<open>create_employee\<close> raises 409 (Conflict) and leaves the store as it was whenever some
  employee already carries the upper-cased input code or the lower-cased input email; in a
  store whose codes and emails are all normalized that is whenever some employee's code
  has the same upper-casing as the input code or its email the same lower-casing as the
  input email. So a second create whose code has the same upper-casing as the code of an
  earlier successful create raises 409. When the two look-ups found nothing but the store
  holds such an employee by the time of the insert (another session created it in
  between), the uniqueness violation of the store is turned into 409 as well, and the
  store is left as that other session made it: no row is added on either path. Here
  \<open>upper\<close> and \<open>lower\<close> stand for \<^verbatim>\<open>str.upper\<close> and \<^verbatim>\<open>str.lower\<close>, whatever functions on
  strings they are.
\<close>

theorem create_employee_conflict:
  "((\<exists>e\<in>set (employees db). e_employee_id e = upper employee_id \<or> e_email e = lower email) \<longrightarrow>
      (\<exists>d. create_employee upper lower new_uuid now db employee_id full_name email department
             = (Inl (HTTPException HTTP_409_CONFLICT d), db)))
   \<and> (normalized upper lower db
        \<and> (\<exists>e\<in>set (employees db). upper (e_employee_id e) = upper employee_id
               \<or> lower (e_email e) = lower email) \<longrightarrow>
      (\<exists>d. create_employee upper lower new_uuid now db employee_id full_name email department
             = (Inl (HTTPException HTTP_409_CONFLICT d), db)))
   \<and> (create_employee upper lower uuid1 now1 db code1 name1 email1 department1 = (Inr emp1, db1)
        \<and> upper code2 = upper code1 \<longrightarrow>
      (\<exists>d. create_employee upper lower new_uuid now db1 code2 full_name email department
             = (Inl (HTTPException HTTP_409_CONFLICT d), db1)))
   \<and> (\<not> (\<exists>e\<in>set (employees db). e_employee_id e = upper employee_id \<or> e_email e = lower email)
        \<and> (\<exists>e\<in>set (employees (others db)).
               e_employee_id e = upper employee_id \<or> e_email e = lower email) \<longrightarrow>
      create_employee_interleaved upper lower others new_uuid now db employee_id full_name email department
        = (Inl (HTTPException HTTP_409_CONFLICT
                  ''Employee with this ID or email already exists''), others db))"
proof (intro conjI impI)
  assume "\<exists>e\<in>set (employees db). e_employee_id e = upper employee_id \<or> e_email e = lower email"
  then have "get_employee_by_employee_id upper db employee_id \<noteq> None
             \<or> get_employee_by_email lower db email \<noteq> None"
    by (rule pre_query_conflict)
  then show "\<exists>d. create_employee upper lower new_uuid now db employee_id full_name email department
             = (Inl (HTTPException HTTP_409_CONFLICT d), db)"
    by (auto simp: create_employee_def)
next
  assume "normalized upper lower db
          \<and> (\<exists>e\<in>set (employees db). upper (e_employee_id e) = upper employee_id
                 \<or> lower (e_email e) = lower email)"
  then have "\<exists>e\<in>set (employees db). e_employee_id e = upper employee_id \<or> e_email e = lower email"
    by (auto simp: normalized_def)
  then have "get_employee_by_employee_id upper db employee_id \<noteq> None
             \<or> get_employee_by_email lower db email \<noteq> None"
    by (rule pre_query_conflict)
  then show "\<exists>d. create_employee upper lower new_uuid now db employee_id full_name email department
             = (Inl (HTTPException HTTP_409_CONFLICT d), db)"
    by (auto simp: create_employee_def)
next
  assume a: "create_employee upper lower uuid1 now1 db code1 name1 email1 department1 = (Inr emp1, db1)
             \<and> upper code2 = upper code1"
  then have "insert_employee upper lower uuid1 now1 db code1 name1 email1 department1 = (Inr emp1, db1)"
    by (intro create_employee_Inr) simp
  from insert_employee_Inr [OF this]
  have "emp1 \<in> set (employees db1)" and "e_employee_id emp1 = upper code1"
    by auto
  with a have "\<exists>e\<in>set (employees db1). e_employee_id e = upper code2 \<or> e_email e = lower email"
    by auto
  then have "get_employee_by_employee_id upper db1 code2 \<noteq> None
             \<or> get_employee_by_email lower db1 email \<noteq> None"
    by (rule pre_query_conflict)
  then show "\<exists>d. create_employee upper lower new_uuid now db1 code2 full_name email department
             = (Inl (HTTPException HTTP_409_CONFLICT d), db1)"
    by (auto simp: create_employee_def)
next
  assume a: "\<not> (\<exists>e\<in>set (employees db). e_employee_id e = upper employee_id \<or> e_email e = lower email)
        \<and> (\<exists>e\<in>set (employees (others db)).
               e_employee_id e = upper employee_id \<or> e_email e = lower email)"
  then have free: "get_employee_by_employee_id upper db employee_id = None"
    "get_employee_by_email lower db email = None"
    by (auto simp: get_employee_by_employee_id_def get_employee_by_email_def find_None_iff)
  from a have "insert_employee upper lower new_uuid now (others db) employee_id full_name email department
           = (Inl (HTTPException HTTP_409_CONFLICT
                     ''Employee with this ID or email already exists''), others db)"
    by (intro insert_employee_taken) simp
  with free show "create_employee_interleaved upper lower others new_uuid now db employee_id full_name email department
        = (Inl (HTTPException HTTP_409_CONFLICT
                  ''Employee with this ID or email already exists''), others db)"
    by (simp add: create_employee_interleaved_def)
qed

theorem create_employee_conflict_witness:
  "create_employee ascii_upper ascii_lower ''u2'' 2 store1 ''e002'' ''Bob'' ''A@x.com'' ''Ops''
     = (Inl (HTTPException 409 ''Employee with email 'A@x.com' already exists''), store1)
   \<and> create_employee ascii_upper ascii_lower ''u1'' 1 empty_store ''e001'' ''Ann'' ''A@X.com'' ''Eng'' = (Inr E1, store1)
   \<and> create_employee ascii_upper ascii_lower ''u2'' 2 store1 ''E001'' ''Bob'' ''b@x.com'' ''Ops''
     = (Inl (HTTPException 409 ''Employee with ID 'E001' already exists''), store1)
   \<and> create_employee_interleaved ascii_upper ascii_lower (\<lambda>db. store1) ''u2'' 2 empty_store ''e001'' ''Bob'' ''b@x.com'' ''Ops''
     = (Inl (HTTPException 409 ''Employee with this ID or email already exists''), store1)"
proof -
  have taken_email:
    "\<exists>e\<in>set (employees store1). e_employee_id e = ascii_upper ''e002'' \<or> e_email e = ascii_lower ''A@x.com''"
    and taken_later:
    "\<exists>e\<in>set (employees store1). e_employee_id e = ascii_upper ''e001'' \<or> e_email e = ascii_lower ''b@x.com''"
    and free:
    "\<not> (\<exists>e\<in>set (employees empty_store).
           e_employee_id e = ascii_upper ''e001'' \<or> e_email e = ascii_lower ''b@x.com'')"
    by code_simp+
  have first:
    "create_employee ascii_upper ascii_lower ''u1'' 1 empty_store ''e001'' ''Ann'' ''A@X.com'' ''Eng'' = (Inr E1, store1)"
    and same: "ascii_upper ''E001'' = ascii_upper ''e001''"
    by code_simp+
  have c: "HTTP_409_CONFLICT = 409"
    by code_simp
  have norm: "normalized ascii_upper ascii_lower store1" and same_email:
    "\<exists>e\<in>set (employees store1). ascii_upper (e_employee_id e) = ascii_upper ''e002''
        \<or> ascii_lower (e_email e) = ascii_lower ''A@x.com''"
    by code_simp+
  from norm same_email
    create_employee_conflict [where upper = ascii_upper and lower = ascii_lower and db = store1 and employee_id = "''e002''"
      and email = "''A@x.com''" and new_uuid = "''u2''" and now = 2 and full_name = "''Bob''"
      and department = "''Ops''"]
  obtain d0 where d0: "create_employee ascii_upper ascii_lower ''u2'' 2 store1 ''e002'' ''Bob'' ''A@x.com'' ''Ops''
     = (Inl (HTTPException HTTP_409_CONFLICT d0), store1)"
    by blast
  from taken_email
    create_employee_conflict [where upper = ascii_upper and lower = ascii_lower and db = store1 and employee_id = "''e002''"
      and email = "''A@x.com''" and new_uuid = "''u2''" and now = 2 and full_name = "''Bob''"
      and department = "''Ops''"]
  obtain d1 where d1: "create_employee ascii_upper ascii_lower ''u2'' 2 store1 ''e002'' ''Bob'' ''A@x.com'' ''Ops''
     = (Inl (HTTPException HTTP_409_CONFLICT d1), store1)"
    by blast
  from first same
    create_employee_conflict [where upper = ascii_upper and lower = ascii_lower and db = empty_store and ?uuid1.0 = "''u1''" and ?now1.0 = 1
      and ?code1.0 = "''e001''" and ?name1.0 = "''Ann''" and ?email1.0 = "''A@X.com''"
      and ?department1.0 = "''Eng''" and ?emp1.0 = E1 and ?db1.0 = store1
      and ?code2.0 = "''E001''" and new_uuid = "''u2''" and now = 2 and full_name = "''Bob''"
      and email = "''b@x.com''" and department = "''Ops''"]
  obtain d2 where d2: "create_employee ascii_upper ascii_lower ''u2'' 2 store1 ''E001'' ''Bob'' ''b@x.com'' ''Ops''
     = (Inl (HTTPException HTTP_409_CONFLICT d2), store1)"
    by blast
  from taken_later free
    create_employee_conflict [where upper = ascii_upper and lower = ascii_lower and db = empty_store and employee_id = "''e001''"
      and email = "''b@x.com''" and new_uuid = "''u2''" and now = 2 and full_name = "''Bob''"
      and department = "''Ops''" and others = "\<lambda>db. store1"]
  have three: "create_employee_interleaved ascii_upper ascii_lower (\<lambda>db. store1) ''u2'' 2 empty_store
                 ''e001'' ''Bob'' ''b@x.com'' ''Ops''
     = (Inl (HTTPException HTTP_409_CONFLICT ''Employee with this ID or email already exists''),
        store1)"
    by blast
  have m1: "create_employee ascii_upper ascii_lower ''u2'' 2 store1 ''e002'' ''Bob'' ''A@x.com'' ''Ops''
     = (Inl (HTTPException 409 ''Employee with email 'A@x.com' already exists''), store1)"
    and m2: "create_employee ascii_upper ascii_lower ''u2'' 2 store1 ''E001'' ''Bob'' ''b@x.com'' ''Ops''
     = (Inl (HTTPException 409 ''Employee with ID 'E001' already exists''), store1)"
    by code_simp+
  from d0 d1 d2 three first m1 m2 show ?thesis
    by (simp add: c)
qed

subsection \<open>One ledger row per employee and date\<close>

lemma mark_attendance_interleaved_alone:
  "mark_attendance_interleaved (\<lambda>db. db) = mark_attendance"
  by (intro ext) (simp add: mark_attendance_interleaved_def mark_attendance_def)

lemma find_filter_hd:
  "find P xs = (case filter P xs of [] \<Rightarrow> None | x # _ \<Rightarrow> Some x)"
  by (induction xs) auto

lemma distinct_key_filter:
  "distinct (map f xs) \<Longrightarrow> length (filter (\<lambda>x. f x = k) xs) \<le> 1"
proof (induction xs)
  case Nil
  then show ?case by simp
next
  case (Cons x xs)
  show ?case
  proof (cases "f x = k")
    case True
    with Cons.prems have "filter (\<lambda>x. f x = k) xs = []"
      by (fastforce simp: filter_empty_conv image_iff)
    with True show ?thesis by simp
  next
    case False
    with Cons show ?thesis by simp
  qed
qed

lemma key_eq: "(a_employee_id r = e \<and> a_date r = d) = ((a_employee_id r, a_date r) = (e, d))"
  by simp

lemma unique_filter_le:
  assumes "unique_employee_date db"
  shows "length (filter (\<lambda>r. a_employee_id r = e \<and> a_date r = d) (attendance db)) \<le> 1"
  using distinct_key_filter [of "\<lambda>r. (a_employee_id r, a_date r)" "attendance db" "(e, d)"] assms
  by (simp add: unique_employee_date_def)

lemma unique_find_filter:
  assumes "unique_employee_date db"
    and "find (\<lambda>r. a_employee_id r = e \<and> a_date r = d) (attendance db) = Some x"
  shows "filter (\<lambda>r. a_employee_id r = e \<and> a_date r = d) (attendance db) = [x]"
proof -
  from assms(2) obtain ys where
    ys: "filter (\<lambda>r. a_employee_id r = e \<and> a_date r = d) (attendance db) = x # ys"
    by (auto simp: find_filter_hd [of _ "attendance db"] split: list.splits)
  with unique_filter_le [OF assms(1), of e d] show ?thesis
    by simp
qed

lemma set_status_key [simp]:
  "a_employee_id (set_status now s r) = a_employee_id r"
  "a_date (set_status now s r) = a_date r"
  "a_id (set_status now s r) = a_id r"
  "a_status (set_status now s r) = s"
  by (simp_all add: set_status_def)

lemma update_status_keys:
  "map (\<lambda>r. (a_employee_id r, a_date r)) (attendance (update_status now db existing s))
     = map (\<lambda>r. (a_employee_id r, a_date r)) (attendance db)"
  by (simp add: update_status_def comp_def cong: if_cong map_cong)


lemma update_status_unique:
  "unique_employee_date (update_status now db existing s) = unique_employee_date db"
  by (simp add: unique_employee_date_def update_status_keys)

lemma add_attendance_Inr:
  assumes "add_attendance db a = Inr db'"
  shows "db' = db\<lparr>attendance := attendance db @ [a]\<rparr>"
    and "a_id a \<notin> set (map a_id (attendance db))"
    and "(a_employee_id a, a_date a) \<notin> set (map (\<lambda>r. (a_employee_id r, a_date r)) (attendance db))"
    and "a_employee_id a \<in> set (map e_id (employees db))"
  using assms by (simp_all add: add_attendance_def split: if_splits)

lemma add_attendance_unique:
  assumes "add_attendance db a = Inr db'" and "unique_employee_date db"
  shows "unique_employee_date db'"
  using add_attendance_Inr(1,3) [OF assms(1)] assms(2)
  by (simp add: unique_employee_date_def)

lemma insert_attendance_cases:
  "(\<exists>db'. add_attendance db
            \<lparr>a_id = new_uuid, a_employee_id = e, a_date = d, a_status = s,
             a_created_at = now, a_updated_at = now\<rparr> = Inr db'
         \<and> insert_attendance new_uuid now db e d s
            = (Inr (format_record db'
                      \<lparr>a_id = new_uuid, a_employee_id = e, a_date = d, a_status = s,
                       a_created_at = now, a_updated_at = now\<rparr>), db'))
   \<or> (add_attendance db
            \<lparr>a_id = new_uuid, a_employee_id = e, a_date = d, a_status = s,
             a_created_at = now, a_updated_at = now\<rparr> = Inl IntegrityError
       \<and> insert_attendance new_uuid now db e d s
            = (Inl (HTTPException HTTP_409_CONFLICT ''Attendance for this date already exists''),
               db))"
  by (auto simp: insert_attendance_def Let_def split: sum.splits store_error.splits)

lemma insert_attendance_unique:
  assumes "unique_employee_date db"
  shows "unique_employee_date (snd (insert_attendance new_uuid now db e d s))"
  using insert_attendance_cases [of db new_uuid e d s now] assms
  by (auto dest: add_attendance_unique)

lemma mark_attendance_unique:
  assumes "unique_employee_date db"
  shows "unique_employee_date (snd (mark_attendance new_uuid now db e d s))"
  using assms
  by (simp add: mark_attendance_def Let_def update_status_unique insert_attendance_unique
           split: option.splits)

lemma mark_sequence_unique:
  "unique_employee_date db \<Longrightarrow> unique_employee_date (mark_sequence db calls)"
proof (induction calls arbitrary: db)
  case Nil
  then show ?case by simp
next
  case (Cons c calls)
  obtain new_uuid now e d s where c: "c = (new_uuid, now, e, d, s)"
    by (cases c) auto
  from Cons.prems have "unique_employee_date (snd (mark_attendance new_uuid now db e d s))"
    by (rule mark_attendance_unique)
  then show ?case
    unfolding c by (simp add: Cons.IH)
qed

text \<open>What a successful mark leaves for its (employee, date) pair.\<close>

lemma mark_attendance_Inr:
  assumes "unique_employee_date db"
    and "mark_attendance new_uuid now db e d s = (Inr r, db')"
  shows "\<exists>a. filter (\<lambda>r. a_employee_id r = e \<and> a_date r = d) (attendance db') = [a]
             \<and> a_status a = s \<and> r_id r = a_id a \<and> r_status r = s"
proof -
  from assms(2) obtain employee where
    emp: "find (\<lambda>x. e_id x = e) (employees db) = Some employee"
    by (auto simp: mark_attendance_def split: option.splits)
  show ?thesis
  proof (cases "find (\<lambda>r. a_employee_id r = e \<and> a_date r = d) (attendance db)")
    case (Some existing)
    with emp assms(2) have r: "r = format_record db' (set_status now s existing)"
      and db': "db' = update_status now db existing s"
      by (auto simp: mark_attendance_def Let_def)
    from unique_find_filter [OF assms(1) Some]
    have one: "filter (\<lambda>r. a_employee_id r = e \<and> a_date r = d) (attendance db) = [existing]" .
    have "filter (\<lambda>r. a_employee_id r = e \<and> a_date r = d) (attendance db')
            = map (\<lambda>r. if a_id r = a_id existing then set_status now s r else r)
                (filter (\<lambda>r. a_employee_id r = e \<and> a_date r = d) (attendance db))"
      by (simp add: db' update_status_def filter_map comp_def cong: if_cong)
    with one have "filter (\<lambda>r. a_employee_id r = e \<and> a_date r = d) (attendance db')
                     = [set_status now s existing]"
      by simp
    with r show ?thesis
      by (simp add: format_record_def)
  next
    case None
    let ?a = "\<lparr>a_id = new_uuid, a_employee_id = e, a_date = d, a_status = s,
               a_created_at = now, a_updated_at = now\<rparr>"
    from None emp assms(2) have ins: "insert_attendance new_uuid now db e d s = (Inr r, db')"
      by (simp add: mark_attendance_def)
    with insert_attendance_cases [of db new_uuid e d s now]
    have add: "add_attendance db ?a = Inr db'" and r: "r = format_record db' ?a"
      by auto
    from None have "filter (\<lambda>r. a_employee_id r = e \<and> a_date r = d) (attendance db) = []"
      by (simp add: find_filter_hd [of _ "attendance db"] split: list.splits)
    with add_attendance_Inr(1) [OF add]
    have "filter (\<lambda>r. a_employee_id r = e \<and> a_date r = d) (attendance db') = [?a]"
      by simp
    with r show ?thesis
      by (simp add: format_record_def)
  qed
qed


lemma mark_attendance_again:
  assumes "find (\<lambda>x. e_id x = e) (employees db) = Some employee"
    and "filter (\<lambda>r. a_employee_id r = e \<and> a_date r = d) (attendance db) = [a]"
  shows "mark_attendance new_uuid now db e d s
           = (Inr (format_record (update_status now db a s) (set_status now s a)),
              update_status now db a s)"
proof -
  from assms(2) have "find (\<lambda>r. a_employee_id r = e \<and> a_date r = d) (attendance db) = Some a"
    by (simp add: find_filter_hd [of _ "attendance db"])
  with assms(1) show ?thesis
    by (simp add: mark_attendance_def Let_def)
qed

text \<open>
  C1. Starting from a store with at most one ledger row per (employee, date), any run of
  \<open>mark_attendance\<close> calls leaves at most one row for every (employee, date) pair. And
  when a mark for a pair has succeeded, a second mark for the same pair with any other
  status succeeds as well, returns the record with the same id and the new status, adds no
  row, and leaves exactly one row for the pair, carrying the status written last.
\<close>

theorem one_record_per_employee_date:
  assumes "unique_employee_date db"
  shows "count_rows (\<lambda>r. a_employee_id r = e \<and> a_date r = d)
           (attendance (mark_sequence db calls)) \<le> 1
         \<and> (mark_attendance uuid1 now1 db employee_id attendance_date status1 = (Inr r1, db1) \<longrightarrow>
              (\<exists>r2 db2 a.
                 mark_attendance uuid2 now2 db1 employee_id attendance_date status2 = (Inr r2, db2)
                 \<and> r_id r2 = r_id r1 \<and> r_status r2 = status2
                 \<and> length (attendance db2) = length (attendance db1)
                 \<and> filter (\<lambda>r. a_employee_id r = employee_id \<and> a_date r = attendance_date)
                       (attendance db2) = [a]
                 \<and> a_status a = status2))"
proof (intro conjI impI)
  from assms have "unique_employee_date (mark_sequence db calls)"
    by (rule mark_sequence_unique)
  from unique_filter_le [OF this, of e d]
  show "count_rows (\<lambda>r. a_employee_id r = e \<and> a_date r = d)
          (attendance (mark_sequence db calls)) \<le> 1"
    by (simp add: count_rows_def)
next
  assume first: "mark_attendance uuid1 now1 db employee_id attendance_date status1 = (Inr r1, db1)"
  from mark_attendance_Inr [OF assms first] obtain a1 where
    a1: "filter (\<lambda>r. a_employee_id r = employee_id \<and> a_date r = attendance_date)
           (attendance db1) = [a1]"
      "r_id r1 = a_id a1"
    by blast
  from mark_attendance_unique [OF assms, of uuid1 now1 employee_id attendance_date status1] first
  have u1: "unique_employee_date db1"
    by simp
  from first obtain employee where
    "find (\<lambda>x. e_id x = employee_id) (employees db) = Some employee"
    by (auto simp: mark_attendance_def split: option.splits)
  moreover from first have "employees db1 = employees db"
    using insert_attendance_cases [of db uuid1 employee_id attendance_date status1 now1]
    by (auto simp: mark_attendance_def Let_def update_status_def
             split: option.splits dest: add_attendance_Inr(1))
  ultimately have emp: "find (\<lambda>x. e_id x = employee_id) (employees db1) = Some employee"
    by simp
  let ?db2 = "update_status now2 db1 a1 status2"
  let ?r2 = "format_record ?db2 (set_status now2 status2 a1)"
  have second: "mark_attendance uuid2 now2 db1 employee_id attendance_date status2 = (Inr ?r2, ?db2)"
    by (rule mark_attendance_again [OF emp a1(1)])
  from mark_attendance_Inr [OF u1 second] obtain a where
    a: "filter (\<lambda>r. a_employee_id r = employee_id \<and> a_date r = attendance_date)
          (attendance ?db2) = [a]" "a_status a = status2"
    by blast
  have "r_id ?r2 = r_id r1" "r_status ?r2 = status2"
    "length (attendance ?db2) = length (attendance db1)"
    by (simp_all add: format_record_def a1(2) update_status_def)
  with second a
  show "\<exists>r2 db2 a.
          mark_attendance uuid2 now2 db1 employee_id attendance_date status2 = (Inr r2, db2)
          \<and> r_id r2 = r_id r1 \<and> r_status r2 = status2
          \<and> length (attendance db2) = length (attendance db1)
          \<and> filter (\<lambda>r. a_employee_id r = employee_id \<and> a_date r = attendance_date)
                (attendance db2) = [a]
          \<and> a_status a = status2"
    by blast
qed


theorem one_record_per_employee_date_witness:
  "count_rows (\<lambda>r. a_employee_id r = ''u1'' \<and> a_date r = 5)
     (attendance (mark_sequence store1
        [(''r1'', 3, ''u1'', 5, ''present''), (''r2'', 4, ''u1'', 5, ''absent'')])) \<le> 1
   \<and> mark_attendance ''r1'' 3 store1 ''u1'' 5 ''present''
       = (Inr (format_record store1 A1), store1\<lparr>attendance := [A1]\<rparr>)
   \<and> mark_attendance ''r2'' 4 (store1\<lparr>attendance := [A1]\<rparr>) ''u1'' 5 ''absent''
       = (Inr (format_record store1 A1_absent), store1\<lparr>attendance := [A1_absent]\<rparr>)"
proof -
  have u: "unique_employee_date store1"
    by code_simp
  have first: "mark_attendance ''r1'' 3 store1 ''u1'' 5 ''present''
       = (Inr (format_record store1 A1), store1\<lparr>attendance := [A1]\<rparr>)"
    by code_simp
  have second: "mark_attendance ''r2'' 4 (store1\<lparr>attendance := [A1]\<rparr>) ''u1'' 5 ''absent''
       = (Inr (format_record store1 A1_absent), store1\<lparr>attendance := [A1_absent]\<rparr>)"
    by code_simp
  from one_record_per_employee_date [OF u, of "''u1''" 5
      "[(''r1'', 3, ''u1'', 5, ''present''), (''r2'', 4, ''u1'', 5, ''absent'')]"
      "''r1''" 3 "''u1''" 5 "''present''" "format_record store1 A1" "store1\<lparr>attendance := [A1]\<rparr>"
      "''r2''" 4 "''absent''"] first second
  show ?thesis
    by simp
qed

subsection \<open>A race on the insert\<close>

lemma add_attendance_key_taken:
  assumes "(a_employee_id a, a_date a)
             \<in> set (map (\<lambda>r. (a_employee_id r, a_date r)) (attendance db))"
  shows "add_attendance db a = Inl IntegrityError"
  using assms by (simp add: add_attendance_def)

text \<open>
  C7. The employee exists and the look-up found no row for (employee, date), but by the
  time of the insert the store holds one (another session created it in between). Then the
  insert violates the uniqueness constraint, and \<open>mark_attendance\<close> answers 409 (Conflict)
  instead of letting the store's error through; the store is left exactly as the other
  session made it.
\<close>

theorem mark_attendance_race_conflict:
  assumes "employee_id \<in> set (map e_id (employees db))"
    and "(employee_id, attendance_date)
           \<notin> set (map (\<lambda>r. (a_employee_id r, a_date r)) (attendance db))"
    and "(employee_id, attendance_date)
           \<in> set (map (\<lambda>r. (a_employee_id r, a_date r)) (attendance (others db)))"
  shows "mark_attendance_interleaved others new_uuid now db employee_id attendance_date
           status_value
         = (Inl (HTTPException HTTP_409_CONFLICT ''Attendance for this date already exists''),
            others db)"
proof -
  from find_id_Some [OF assms(1)] obtain employee where
    emp: "find (\<lambda>e. e_id e = employee_id) (employees db) = Some employee"
    by blast
  from assms(2) have none:
    "find (\<lambda>r. a_employee_id r = employee_id \<and> a_date r = attendance_date) (attendance db) = None"
    by (force simp: find_None_iff image_iff)
  let ?a = "\<lparr>a_id = new_uuid, a_employee_id = employee_id, a_date = attendance_date,
             a_status = status_value, a_created_at = now, a_updated_at = now\<rparr>"
  from assms(3) have "add_attendance (others db) ?a = Inl IntegrityError"
    by (intro add_attendance_key_taken) simp
  with insert_attendance_cases [of "others db" new_uuid employee_id attendance_date status_value now]
  have "insert_attendance new_uuid now (others db) employee_id attendance_date status_value
          = (Inl (HTTPException HTTP_409_CONFLICT ''Attendance for this date already exists''),
             others db)"
    by auto
  with emp none show ?thesis
    by (simp add: mark_attendance_interleaved_def)
qed

theorem mark_attendance_race_conflict_witness:
  "mark_attendance_interleaved (\<lambda>db. db\<lparr>attendance := attendance db @ [A1]\<rparr>)
     ''r7'' 4 store1 ''u1'' 5 ''absent''
   = (Inl (HTTPException 409 ''Attendance for this date already exists''),
      \<lparr>employees = [E1], attendance = [A1]\<rparr>)"
proof -
  let ?others = "\<lambda>db. db\<lparr>attendance := attendance db @ [A1]\<rparr>"
  have emp: "''u1'' \<in> set (map e_id (employees store1))"
    and before: "(''u1'', 5) \<notin> set (map (\<lambda>r. (a_employee_id r, a_date r)) (attendance store1))"
    and after: "(''u1'', 5)
                  \<in> set (map (\<lambda>r. (a_employee_id r, a_date r)) (attendance (?others store1)))"
    by code_simp+
  have c: "HTTP_409_CONFLICT = 409" and s: "?others store1 = \<lparr>employees = [E1], attendance = [A1]\<rparr>"
    by code_simp+
  from mark_attendance_race_conflict [where others = ?others and db = store1
      and employee_id = "''u1''" and attendance_date = 5 and new_uuid = "''r7''" and now = 4
      and status_value = "''absent''", OF emp before after]
  show ?thesis
    unfolding c s .
qed

subsection \<open>The status is not validated\<close>

lemma count_rows_snoc:
  "count_rows P (rows @ [a]) = count_rows P rows + (if P a then 1 else 0)"
  by (simp add: count_rows_def)

lemma get_attendance_stats_Inr:
  assumes "find (\<lambda>e. e_id e = u) (employees db) = Some employee"
  shows "\<exists>st. get_attendance_stats db u = Inr st
            \<and> total_days st = count_rows (\<lambda>r. a_employee_id r = u) (attendance db)
            \<and> present_days st
                = count_rows (\<lambda>r. a_employee_id r = u \<and> a_status r = PRESENT) (attendance db)
            \<and> absent_days st
                = count_rows (\<lambda>r. a_employee_id r = u \<and> a_status r = ABSENT) (attendance db)"
  using assms
  by (simp add: get_attendance_stats_def Let_def truediv_def)

text \<open>
  C10. For an existing employee, a fresh uuid for the row that may be created, and any
  string as status, \<open>mark_attendance\<close> succeeds, returns that string as the record's status
  and leaves a row for (employee, date) carrying it unchanged. When the string is neither
  \<open>present\<close> nor \<open>absent\<close> and the row is new, the employee's statistics afterwards have
  \<open>total_days\<close> one higher and \<open>present_days\<close> and \<open>absent_days\<close> as before.
\<close>

theorem mark_attendance_any_status:
  assumes "employee_id \<in> set (map e_id (employees db))"
    and "new_uuid \<notin> set (map a_id (attendance db))"
  shows "\<exists>r db'. mark_attendance new_uuid now db employee_id attendance_date status_value
                    = (Inr r, db')
           \<and> r_status r = status_value
           \<and> (\<exists>a\<in>set (attendance db'). a_employee_id a = employee_id
                  \<and> a_date a = attendance_date \<and> a_status a = status_value)
           \<and> (status_value \<noteq> PRESENT \<and> status_value \<noteq> ABSENT
                \<and> (employee_id, attendance_date)
                     \<notin> set (map (\<lambda>r. (a_employee_id r, a_date r)) (attendance db)) \<longrightarrow>
              (\<exists>st st'. get_attendance_stats db employee_id = Inr st
                 \<and> get_attendance_stats db' employee_id = Inr st'
                 \<and> total_days st' = total_days st + 1
                 \<and> present_days st' = present_days st
                 \<and> absent_days st' = absent_days st))"
proof -
  from find_id_Some [OF assms(1)] obtain employee where
    emp: "find (\<lambda>e. e_id e = employee_id) (employees db) = Some employee"
    by blast
  show ?thesis
  proof (cases "find (\<lambda>r. a_employee_id r = employee_id \<and> a_date r = attendance_date)
                  (attendance db)")
    case (Some existing)
    then have ex: "existing \<in> set (attendance db)" "a_employee_id existing = employee_id"
      "a_date existing = attendance_date"
      by (auto simp: find_Some_iff)
    let ?db' = "update_status now db existing status_value"
    have run: "mark_attendance new_uuid now db employee_id attendance_date status_value
                 = (Inr (format_record ?db' (set_status now status_value existing)), ?db')"
      using emp Some by (simp add: mark_attendance_def Let_def)
    from ex have "set_status now status_value existing \<in> set (attendance ?db')"
      by (force simp: update_status_def image_iff)
    then have "\<exists>a\<in>set (attendance ?db'). a_employee_id a = employee_id
                 \<and> a_date a = attendance_date \<and> a_status a = status_value"
      using ex by (intro bexI [of _ "set_status now status_value existing"]) simp_all
    moreover from ex have "(employee_id, attendance_date)
                     \<in> set (map (\<lambda>r. (a_employee_id r, a_date r)) (attendance db))"
      by force
    ultimately show ?thesis
      using run by (simp add: format_record_def)
  next
    case None
    let ?a = "\<lparr>a_id = new_uuid, a_employee_id = employee_id, a_date = attendance_date,
               a_status = status_value, a_created_at = now, a_updated_at = now\<rparr>"
    let ?db' = "db\<lparr>attendance := attendance db @ [?a]\<rparr>"
    from None have "(employee_id, attendance_date)
                     \<notin> set (map (\<lambda>r. (a_employee_id r, a_date r)) (attendance db))"
      by (auto simp: find_None_iff)
    with assms have "add_attendance db ?a = Inr ?db'"
      by (simp add: add_attendance_def)
    with emp None have run:
      "mark_attendance new_uuid now db employee_id attendance_date status_value
         = (Inr (format_record ?db' ?a), ?db')"
      by (simp add: mark_attendance_def insert_attendance_def Let_def)
    from get_attendance_stats_Inr [OF emp] obtain st where
      st: "get_attendance_stats db employee_id = Inr st"
        "total_days st = count_rows (\<lambda>r. a_employee_id r = employee_id) (attendance db)"
        "present_days st = count_rows (\<lambda>r. a_employee_id r = employee_id \<and> a_status r = PRESENT)
                             (attendance db)"
        "absent_days st = count_rows (\<lambda>r. a_employee_id r = employee_id \<and> a_status r = ABSENT)
                            (attendance db)"
      by blast
    have "find (\<lambda>e. e_id e = employee_id) (employees ?db') = Some employee"
      using emp by simp
    from get_attendance_stats_Inr [OF this] obtain st' where
      st': "get_attendance_stats ?db' employee_id = Inr st'"
        "total_days st' = count_rows (\<lambda>r. a_employee_id r = employee_id) (attendance ?db')"
        "present_days st' = count_rows (\<lambda>r. a_employee_id r = employee_id \<and> a_status r = PRESENT)
                             (attendance ?db')"
        "absent_days st' = count_rows (\<lambda>r. a_employee_id r = employee_id \<and> a_status r = ABSENT)
                            (attendance ?db')"
      by blast
    have "status_value \<noteq> PRESENT \<and> status_value \<noteq> ABSENT \<longrightarrow>
            total_days st' = total_days st + 1 \<and> present_days st' = present_days st
            \<and> absent_days st' = absent_days st"
      by (simp add: st st' count_rows_snoc)
    with run st(1) st'(1) show ?thesis
      by (simp add: format_record_def)
  qed
qed

theorem mark_attendance_any_status_witness:
  "mark_attendance ''r1'' 3 store1 ''u1'' 5 ''late''
     = (Inr (format_record store1 A1_late), store1\<lparr>attendance := [A1_late]\<rparr>)
   \<and> r_status (format_record store1 A1_late) = ''late''
   \<and> total_days (projr (get_attendance_stats (store1\<lparr>attendance := [A1_late]\<rparr>) ''u1'')) = 1
   \<and> present_days (projr (get_attendance_stats (store1\<lparr>attendance := [A1_late]\<rparr>) ''u1'')) = 0
   \<and> absent_days (projr (get_attendance_stats (store1\<lparr>attendance := [A1_late]\<rparr>) ''u1'')) = 0"
proof -
  have emp: "''u1'' \<in> set (map e_id (employees store1))"
    and fresh: "''r1'' \<notin> set (map a_id (attendance store1))"
    and other: "''late'' \<noteq> PRESENT \<and> ''late'' \<noteq> ABSENT
                \<and> (''u1'', 5) \<notin> set (map (\<lambda>r. (a_employee_id r, a_date r)) (attendance store1))"
    by code_simp+
  have run: "mark_attendance ''r1'' 3 store1 ''u1'' 5 ''late''
     = (Inr (format_record store1 A1_late), store1\<lparr>attendance := [A1_late]\<rparr>)"
    by code_simp
  have before: "total_days (projr (get_attendance_stats store1 ''u1'')) = 0"
    "present_days (projr (get_attendance_stats store1 ''u1'')) = 0"
    "absent_days (projr (get_attendance_stats store1 ''u1'')) = 0"
    by code_simp+
  from mark_attendance_any_status [OF emp fresh, of 3 5 "''late''"] other run before
  show ?thesis
    by auto
qed

subsection \<open>Statistics\<close>

lemma py_round_zero [simp]: "py_round 0 ndigits = 0"
  by (simp add: py_round_def round_half_even_def to_double_def)

lemma truediv_Inr: "b \<noteq> 0 \<Longrightarrow> truediv a b = Inr (to_double (of_int a / of_int b))"
  by (simp add: truediv_def)

lemma count_rows_nonneg [simp]: "0 \<le> count_rows P rows"
  by (simp add: count_rows_def)

text \<open>
  C2. For an existing employee \<open>get_attendance_stats\<close> returns a result (no
  \<open>ZeroDivisionError\<close>, no other error). Its \<open>total_days\<close> and \<open>present_days\<close> are the
  counts of the employee's rows and of those with status \<open>present\<close>. When \<open>total_days\<close> is
  positive, the division \<open>present_days / total_days\<close> is defined and
  \<open>attendance_percentage\<close> is \<open>round(present_days / total_days * 100, 2)\<close>; when
  \<open>total_days\<close> is zero, \<open>attendance_percentage\<close> is zero. \<open>total_days\<close> is never negative.
\<close>

theorem attendance_percentage_value:
  assumes "employee_uuid \<in> set (map e_id (employees db))"
  shows "\<exists>st. get_attendance_stats db employee_uuid = Inr st
           \<and> total_days st = count_rows (\<lambda>r. a_employee_id r = employee_uuid) (attendance db)
           \<and> present_days st
               = count_rows (\<lambda>r. a_employee_id r = employee_uuid \<and> a_status r = PRESENT)
                   (attendance db)
           \<and> (0 < total_days st \<longrightarrow>
                (\<exists>q. truediv (present_days st) (total_days st) = Inr q
                   \<and> attendance_percentage st = py_round (float_mul q 100) 2))
           \<and> (total_days st = 0 \<longrightarrow> attendance_percentage st = 0)
           \<and> 0 \<le> total_days st"
proof -
  from find_id_Some [OF assms] obtain employee where
    emp: "find (\<lambda>e. e_id e = employee_uuid) (employees db) = Some employee"
    by blast
  let ?total = "count_rows (\<lambda>r. a_employee_id r = employee_uuid) (attendance db)"
  show ?thesis
  proof (cases "0 < ?total")
    case True
    then have "?total \<noteq> 0" by simp
    from truediv_Inr [OF this] True emp show ?thesis
      by (simp add: get_attendance_stats_def Let_def)
  next
    case False
    moreover have "0 \<le> ?total" by simp
    ultimately have "?total = 0" by linarith
    with emp show ?thesis
      by (simp add: get_attendance_stats_def Let_def)
  qed
qed

theorem attendance_percentage_value_witness:
  "attendance_percentage (projr (get_attendance_stats store3 ''u1'')) = to_double (3333 / 100)
   \<and> total_days (projr (get_attendance_stats store3 ''u1'')) = 3
   \<and> present_days (projr (get_attendance_stats store3 ''u1'')) = 1
   \<and> get_attendance_stats store3 ''u2''
      = Inr \<lparr>s_employee_id = ''u2'', s_employee_name = ''Bob'', total_days = 0,
             present_days = 0, absent_days = 0, attendance_percentage = 0\<rparr>"
proof -
  have e1: "''u1'' \<in> set (map e_id (employees store3))"
    and e2: "''u2'' \<in> set (map e_id (employees store3))"
    by code_simp+
  have counts: "count_rows (\<lambda>r. a_employee_id r = ''u1'') (attendance store3) = 3"
    "count_rows (\<lambda>r. a_employee_id r = ''u1'' \<and> a_status r = PRESENT) (attendance store3) = 1"
    "count_rows (\<lambda>r. a_employee_id r = ''u2'') (attendance store3) = 0"
    by code_simp+
  have third: "truediv 1 3 = Inr (to_double (1 / 3))"
    by code_simp
  have rounded: "py_round (float_mul (to_double (1 / 3)) 100) 2 = to_double (3333 / 100)"
    by code_simp
  have two: "get_attendance_stats store3 ''u2''
      = Inr \<lparr>s_employee_id = ''u2'', s_employee_name = ''Bob'', total_days = 0,
             present_days = 0, absent_days = 0, attendance_percentage = 0\<rparr>"
    by code_simp
  from attendance_percentage_value [OF e1] obtain st where
    st: "get_attendance_stats store3 ''u1'' = Inr st" "total_days st = 3" "present_days st = 1"
      "attendance_percentage st = to_double (3333 / 100)"
    unfolding counts using third rounded by auto
  from attendance_percentage_value [OF e2] two
  have "attendance_percentage (projr (get_attendance_stats store3 ''u2'')) = 0"
    unfolding counts by auto
  with st two show ?thesis
    by simp
qed

lemma present_absent_split:
  assumes "\<forall>r\<in>set rows. P r \<longrightarrow> a_status r = PRESENT \<or> a_status r = ABSENT"
  shows "count_rows (\<lambda>r. P r \<and> a_status r = PRESENT) rows
           + count_rows (\<lambda>r. P r \<and> a_status r = ABSENT) rows
         = count_rows P rows"
  using assms
proof (induction rows)
  case Nil
  then show ?case by (simp add: count_rows_def)
next
  case (Cons r rows)
  have "PRESENT \<noteq> ABSENT"
    by (simp add: PRESENT_def ABSENT_def)
  with Cons show ?case
    by (auto simp: count_rows_def)
qed

lemma distinct_dates_of_employee:
  "distinct (map (\<lambda>r. (a_employee_id r, a_date r)) rows)
     \<Longrightarrow> distinct (map a_date (filter (\<lambda>r. a_employee_id r = u) rows))"
  by (induction rows) (auto simp: image_iff)

text \<open>
  C3. For an existing employee the statistics satisfy
  \<open>present_days + absent_days = total_days\<close> provided every row of that employee has status
  \<open>present\<close> or \<open>absent\<close>, and \<open>total_days\<close> is the number of distinct dates among that
  employee's rows provided the store has at most one row per (employee, date).
\<close>

theorem stats_days_add_up:
  assumes "employee_uuid \<in> set (map e_id (employees db))"
  shows "\<exists>st. get_attendance_stats db employee_uuid = Inr st
           \<and> ((\<forall>r\<in>set (attendance db). a_employee_id r = employee_uuid \<longrightarrow>
                   a_status r = PRESENT \<or> a_status r = ABSENT) \<longrightarrow>
                present_days st + absent_days st = total_days st)
           \<and> (unique_employee_date db \<longrightarrow>
                total_days st
                  = int (card (set (map a_date
                       (filter (\<lambda>r. a_employee_id r = employee_uuid) (attendance db))))))"
proof -
  from find_id_Some [OF assms] obtain employee where
    emp: "find (\<lambda>e. e_id e = employee_uuid) (employees db) = Some employee"
    by blast
  from get_attendance_stats_Inr [OF emp] obtain st where
    st: "get_attendance_stats db employee_uuid = Inr st"
      "total_days st = count_rows (\<lambda>r. a_employee_id r = employee_uuid) (attendance db)"
      "present_days st
         = count_rows (\<lambda>r. a_employee_id r = employee_uuid \<and> a_status r = PRESENT) (attendance db)"
      "absent_days st
         = count_rows (\<lambda>r. a_employee_id r = employee_uuid \<and> a_status r = ABSENT) (attendance db)"
    by blast
  have sum: "present_days st + absent_days st = total_days st"
    if "\<forall>r\<in>set (attendance db). a_employee_id r = employee_uuid \<longrightarrow>
          a_status r = PRESENT \<or> a_status r = ABSENT"
    using present_absent_split [OF that] by (simp add: st)
  have dates: "total_days st
                 = int (card (set (map a_date
                      (filter (\<lambda>r. a_employee_id r = employee_uuid) (attendance db)))))"
    if "unique_employee_date db"
  proof -
    from that have "distinct (map a_date
                      (filter (\<lambda>r. a_employee_id r = employee_uuid) (attendance db)))"
      unfolding unique_employee_date_def by (rule distinct_dates_of_employee)
    from distinct_card [OF this] show ?thesis
      by (simp add: st count_rows_def)
  qed
  from st(1) sum dates show ?thesis
    by blast
qed

theorem stats_days_add_up_witness:
  "get_attendance_stats store3 ''u1''
     = Inr \<lparr>s_employee_id = ''u1'', s_employee_name = ''Ann'', total_days = 3,
            present_days = 1, absent_days = 2,
            attendance_percentage = to_double (3333 / 100)\<rparr>
   \<and> card (set (map a_date (filter (\<lambda>r. a_employee_id r = ''u1'') (attendance store3)))) = 3"
proof -
  have e1: "''u1'' \<in> set (map e_id (employees store3))"
    and statuses: "\<forall>r\<in>set (attendance store3). a_employee_id r = ''u1'' \<longrightarrow>
                     a_status r = PRESENT \<or> a_status r = ABSENT"
    and unique: "unique_employee_date store3"
    by code_simp+
  have run: "get_attendance_stats store3 ''u1''
     = Inr \<lparr>s_employee_id = ''u1'', s_employee_name = ''Ann'', total_days = 3,
            present_days = 1, absent_days = 2,
            attendance_percentage = to_double (3333 / 100)\<rparr>"
    by code_simp
  from stats_days_add_up [OF e1] statuses unique run
  have "int (card (set (map a_date (filter (\<lambda>r. a_employee_id r = ''u1'') (attendance store3)))))
          = 3"
    by auto
  with run show ?thesis
    by simp
qed

text \<open>
  C6. \<open>get_today_attendance_count\<close> always returns a result. In it \<open>total_employees\<close> is the
  number of employees, \<open>present_today\<close> and \<open>absent_today\<close> count today's rows with status
  \<open>present\<close> and \<open>absent\<close>, \<open>marked_today\<close> is their sum, and \<open>unmarked_today\<close> is the integer
  difference \<open>total_employees - marked_today\<close>, negative when more rows are marked than
  employees exist. \<open>attendance_rate\<close> is \<open>round(present_today / total_employees * 100, 2)\<close>
  when there is an employee, and zero when there is none.
\<close>

theorem today_attendance_count:
  "\<exists>tc. get_today_attendance_count today db = Inr tc
      \<and> total_employees tc = int (length (employees db))
      \<and> present_today tc
          = count_rows (\<lambda>r. a_date r = today \<and> a_status r = PRESENT) (attendance db)
      \<and> absent_today tc
          = count_rows (\<lambda>r. a_date r = today \<and> a_status r = ABSENT) (attendance db)
      \<and> marked_today tc = present_today tc + absent_today tc
      \<and> unmarked_today tc = total_employees tc - marked_today tc
      \<and> (0 < total_employees tc \<longrightarrow>
           (\<exists>q. truediv (present_today tc) (total_employees tc) = Inr q
              \<and> attendance_rate tc = py_round (float_mul q 100) 2))
      \<and> (total_employees tc = 0 \<longrightarrow> attendance_rate tc = 0)"
proof (cases "employees db = []")
  case True
  then show ?thesis
    by (simp add: get_today_attendance_count_def Let_def count_rows_def)
next
  case False
  then have "int (length (employees db)) \<noteq> 0"
    by simp
  from truediv_Inr [OF this] False show ?thesis
    by (simp add: get_today_attendance_count_def Let_def count_rows_def)
qed

theorem today_attendance_count_witness:
  "get_today_attendance_count 5 store4
     = Inr \<lparr>total_employees = 2, marked_today = 1, present_today = 1, absent_today = 0,
            unmarked_today = 1, attendance_rate = 50\<rparr>
   \<and> get_today_attendance_count 5 orphans_only
     = Inr \<lparr>total_employees = 0, marked_today = 1, present_today = 1, absent_today = 0,
            unmarked_today = - 1, attendance_rate = 0\<rparr>"
proof -
  have one: "get_today_attendance_count 5 store4
     = Inr \<lparr>total_employees = 2, marked_today = 1, present_today = 1, absent_today = 0,
            unmarked_today = 1, attendance_rate = 50\<rparr>"
    by code_simp
  have two: "get_today_attendance_count 5 orphans_only
     = Inr \<lparr>total_employees = 0, marked_today = 1, present_today = 1, absent_today = 0,
            unmarked_today = - 1, attendance_rate = 0\<rparr>"
    by code_simp
  have half: "truediv 1 2 = Inr (1 / 2)" "py_round (float_mul (1 / 2) 100) 2 = 50"
    by code_simp+
  from today_attendance_count [of 5 store4] one half
  have "attendance_rate (projr (get_today_attendance_count 5 store4)) = 50"
    by auto
  moreover from today_attendance_count [of 5 orphans_only] two
  have "unmarked_today (projr (get_today_attendance_count 5 orphans_only)) = - 1
        \<and> attendance_rate (projr (get_today_attendance_count 5 orphans_only)) = 0"
    by auto
  ultimately show ?thesis
    using one two by simp
qed

subsection \<open>The operations keep the store's constraints\<close>

text \<open>
  The hypotheses on the store used above hold of every store that the three mutating
  operations build from the empty one.
\<close>

lemma ascii_upper_char_idem: "ascii_upper_char (ascii_upper_char c) = ascii_upper_char c"
proof (cases "97 \<le> (of_char c :: nat) \<and> (of_char c :: nat) \<le> 122")
  case True
  then have "(of_char c - 32) mod 256 = (of_char c - 32 :: nat)"
    by (intro mod_less) linarith
  with True show ?thesis
    by (auto simp: ascii_upper_char_def Let_def)
next
  case False
  then show ?thesis
    by (auto simp: ascii_upper_char_def Let_def)
qed

lemma ascii_lower_char_idem: "ascii_lower_char (ascii_lower_char c) = ascii_lower_char c"
proof (cases "65 \<le> (of_char c :: nat) \<and> (of_char c :: nat) \<le> 90")
  case True
  then have "(of_char c + 32) mod 256 = (of_char c + 32 :: nat)"
    by (intro mod_less) linarith
  with True show ?thesis
    by (simp add: ascii_lower_char_def Let_def)
next
  case False
  then show ?thesis
    by (auto simp: ascii_lower_char_def Let_def)
qed

lemma ascii_upper_idem: "ascii_upper (ascii_upper s) = ascii_upper s"
  by (simp add: ascii_upper_def ascii_upper_char_idem)

lemma ascii_lower_idem: "ascii_lower (ascii_lower s) = ascii_lower s"
  by (simp add: ascii_lower_def ascii_lower_char_idem)

lemma create_employee_store:
  "snd (create_employee upper lower new_uuid now db employee_id full_name email department) = db
   \<or> (\<exists>emp. create_employee upper lower new_uuid now db employee_id full_name email department
                = (Inr emp, db\<lparr>employees := employees db @ [emp]\<rparr>)
          \<and> add_employee db emp = Inr (db\<lparr>employees := employees db @ [emp]\<rparr>)
          \<and> e_employee_id emp = upper employee_id \<and> e_email emp = lower email)"
  by (auto simp: create_employee_def insert_employee_def Let_def
           split: sum.splits store_error.splits dest: add_employee_Inr)

lemma empty_store_normalized: "normalized upper lower empty_store"
  by (simp add: normalized_def empty_store_def)

lemma create_employee_normalized:
  assumes "normalized upper lower db"
    and "\<And>s. upper (upper s) = upper s" and "\<And>s. lower (lower s) = lower s"
  shows "normalized upper lower (snd (create_employee upper lower new_uuid now db employee_id full_name email department))"
  using create_employee_store [of upper lower new_uuid now db employee_id full_name email department] assms
  by (auto simp: normalized_def)

lemma delete_employee_normalized:
  assumes "normalized upper lower db"
  shows "normalized upper lower (snd (delete_employee db employee_uuid))"
  using assms
  by (auto simp: normalized_def delete_employee_def split: option.splits)

lemma mark_attendance_normalized:
  assumes "normalized upper lower db"
  shows "normalized upper lower (snd (mark_attendance new_uuid now db e d s))"
proof -
  have "employees (snd (mark_attendance new_uuid now db e d s)) = employees db"
    using insert_attendance_cases [of db new_uuid e d s now]
    by (auto simp: mark_attendance_def Let_def update_status_def
             split: option.splits dest: add_attendance_Inr(1))
  with assms show ?thesis
    by (simp add: normalized_def)
qed

lemma empty_store_constraints: "constraints empty_store"
  by (simp add: constraints_def empty_store_def unique_employee_date_def)

lemma create_employee_constraints:
  assumes "constraints db"
  shows "constraints (snd (create_employee upper lower new_uuid now db employee_id full_name email department))"
  using create_employee_store [of upper lower new_uuid now db employee_id full_name email department] assms
  by (auto simp: constraints_def unique_employee_date_def add_employee_def image_subset_iff
           split: if_splits)

lemma delete_employee_constraints:
  assumes "constraints db"
  shows "constraints (snd (delete_employee db employee_uuid))"
proof (cases "get_employee_by_id db employee_uuid")
  case None
  with assms show ?thesis
    by (simp add: delete_employee_def)
next
  case (Some employee)
  with assms show ?thesis
    by (auto simp: delete_employee_def constraints_def unique_employee_date_def
          distinct_map_filter image_subset_iff)
qed

lemma update_status_ids:
  "map a_id (attendance (update_status now db existing s)) = map a_id (attendance db)"
  "map a_employee_id (attendance (update_status now db existing s))
     = map a_employee_id (attendance db)"
  "employees (update_status now db existing s) = employees db"
  by (simp_all add: update_status_def comp_def cong: if_cong)

lemma mark_attendance_constraints:
  assumes "constraints db"
  shows "constraints (snd (mark_attendance new_uuid now db e d s))"
proof -
  have upd: "constraints (update_status now db existing s)" for existing
    using assms update_status_ids [of now db existing s]
    by (simp add: constraints_def update_status_unique del: set_map)
  have ins: "constraints (snd (insert_attendance new_uuid now db e d s))"
  proof (cases "add_attendance db
                  \<lparr>a_id = new_uuid, a_employee_id = e, a_date = d, a_status = s,
                   a_created_at = now, a_updated_at = now\<rparr>")
    case (Inl err)
    with assms show ?thesis
      by (simp add: insert_attendance_def Let_def split: store_error.splits)
  next
    case (Inr db')
    from add_attendance_Inr [OF Inr] assms have "constraints db'"
      by (auto simp: constraints_def unique_employee_date_def)
    with Inr show ?thesis
      by (simp add: insert_attendance_def Let_def)
  qed
  from upd ins assms show ?thesis
    by (simp add: mark_attendance_def Let_def split: option.splits)
qed

end
